theory Spec2Isabelle
  imports Main
begin

section \<open>JavaScript values and built-ins used by the two classes\<close>

text \<open>
  The values that flow through \<^verbatim>\<open>Driver\<close> (src/src/driver.js) and \<^verbatim>\<open>_Controller\<close>
  (src/src/controller.js). Functions, DOM elements and data stores are objects with an
  identity, so they are addresses. A JavaScript string is a list of code units; it is
  modelled as \<^typ>\<open>string\<close>.
\<close>

datatype jsval =
    JUndefined
  | JNull
  | JBool bool
  | JNum int
  | JStr string
  | JFun nat
  | JNode nat
  | JStore nat
  | JObj "(string \<times> jsval) list"
  | JArr "jsval list"
  | JArgs "jsval list"
  | JEntity jsval

text \<open>\<^verbatim>\<open>typeof v\<close>. \<^verbatim>\<open>typeof null\<close> is \<^verbatim>\<open>'object'\<close>, as for arrays and every other object.\<close>

fun typeof :: "jsval \<Rightarrow> string" where
  "typeof JUndefined = ''undefined''"
| "typeof JNull = ''object''"
| "typeof (JBool b) = ''boolean''"
| "typeof (JNum n) = ''number''"
| "typeof (JStr s) = ''string''"
| "typeof (JFun f) = ''function''"
| "typeof (JNode n) = ''object''"
| "typeof (JStore a) = ''object''"
| "typeof (JObj kvs) = ''object''"
| "typeof (JArr xs) = ''object''"
| "typeof (JArgs xs) = ''object''"
| "typeof (JEntity r) = ''object''"

text \<open>Truthiness, as tested by \<^verbatim>\<open>||\<close>, \<^verbatim>\<open>!\<close> and \<^verbatim>\<open>if\<close>.\<close>

fun truthy :: "jsval \<Rightarrow> bool" where
  "truthy JUndefined = False"
| "truthy JNull = False"
| "truthy (JBool b) = b"
| "truthy (JNum n) = (n \<noteq> 0)"
| "truthy (JStr s) = (s \<noteq> [])"
| "truthy v = True"

text \<open>An exception: \<^verbatim>\<open>new Error(msg)\<close> thrown by the code, a \<^verbatim>\<open>TypeError\<close> raised by the
  engine (a property read on \<^verbatim>\<open>undefined\<close> or \<^verbatim>\<open>null\<close>, a call of a non-function), and the
  \<^verbatim>\<open>SyntaxError\<close> that \<^verbatim>\<open>insertAdjacentHTML\<close>/\<^verbatim>\<open>insertAdjacentElement\<close> raise for an
  unknown position.\<close>

datatype js_error = Error string | TypeError | SyntaxError

text \<open>\<^verbatim>\<open>xs.indexOf(x)\<close>: the first index of \<open>x\<close>, or \<open>-1\<close>.\<close>

fun indexOf :: "'a list \<Rightarrow> 'a \<Rightarrow> int" where
  "indexOf [] x = -1"
| "indexOf (y # ys) x =
     (if y = x then 0 else (let i = indexOf ys x in if i < 0 then -1 else i + 1))"

text \<open>\<^verbatim>\<open>s.substr(start, len)\<close>: a negative start counts from the end and is clipped at 0.\<close>

definition substr :: "string \<Rightarrow> int \<Rightarrow> nat \<Rightarrow> string" where
  "substr s start len =
     (let n = int (length s);
          b = (if start < 0 then max (n + start) 0 else min start n)
      in take len (drop (nat b) s))"


text \<open>\<^verbatim>\<open>NGN.coalesce(a, b)\<close>: the first argument that is neither \<^verbatim>\<open>null\<close> nor
  \<^verbatim>\<open>undefined\<close>.\<close>

fun coalesce :: "'a option \<Rightarrow> 'a \<Rightarrow> 'a" where
  "coalesce None d = d"
| "coalesce (Some a) d = a"

text \<open>\<^verbatim>\<open>s.toLowerCase()\<close> on ASCII text, and \<^verbatim>\<open>s.trim()\<close>, which strips the blanks and
  line ends among the code units below 256: tab, line feed, vertical tab, form feed,
  carriage return, space and the no-break space U+00A0.\<close>

definition lower_char :: "char \<Rightarrow> char" where
  "lower_char c =
     (let n = (of_char c :: nat)
      in if of_char CHR ''A'' \<le> n \<and> n \<le> of_char CHR ''Z'' then char_of (n + 32) else c)"

definition toLowerCase :: "string \<Rightarrow> string" where
  "toLowerCase s = map lower_char s"

definition is_space :: "char \<Rightarrow> bool" where
  "is_space c = (c \<in> set [CHR '' '', CHR 0x09, CHR 0x0A, CHR 0x0B, CHR 0x0C, CHR 0x0D, CHR 0xA0])"

definition trim :: "string \<Rightarrow> string" where
  "trim s = rev (dropWhile is_space (rev (dropWhile is_space s)))"

text \<open>\<^verbatim>\<open>s.replace(/[^A-Za-z0-9]/gi, '')\<close>.\<close>

definition is_alnum :: "char \<Rightarrow> bool" where
  "is_alnum c =
     (let n = (of_char c :: nat)
      in (of_char CHR ''A'' \<le> n \<and> n \<le> of_char CHR ''Z'')
         \<or> (of_char CHR ''a'' \<le> n \<and> n \<le> of_char CHR ''z'')
         \<or> (of_char CHR ''0'' \<le> n \<and> n \<le> of_char CHR ''9''))"

definition strip_non_alnum :: "string \<Rightarrow> string" where
  "strip_non_alnum s = filter is_alnum s"
text \<open>How a call ends: it returns, or it throws. The state a call leaves behind is kept
  in both cases, so that what happened before a throw can be read off.\<close>

datatype completion = Normal | Throw js_error

text \<open>\<^verbatim>\<open>xs.forEach(f)\<close> where \<open>f\<close> updates the state and may throw: the first exception
  ends the loop.\<close>

fun forEach :: "'a list \<Rightarrow> ('a \<Rightarrow> 's \<Rightarrow> completion \<times> 's) \<Rightarrow> 's \<Rightarrow> completion \<times> 's" where
  "forEach [] f s = (Normal, s)"
| "forEach (x # xs) f s =
     (case f x s of (Throw err, s') \<Rightarrow> (Throw err, s') | (Normal, s') \<Rightarrow> forEach xs f s')"

section \<open>The external collaborators\<close>

text \<open>
  \<^verbatim>\<open>NGN.BUS\<close>, \<^verbatim>\<open>NGNX.REF\<close>, \<^verbatim>\<open>NGN.ref\<close>, \<^verbatim>\<open>NGN.NET.template\<close>, \<^verbatim>\<open>NGN.DOM.svg\<close>, the
  document, the data stores and the console are not code of the two classes. The bus,
  the template loader, the SVG helper, the DOM and user callbacks are recorded as the
  calls they receive, oldest first; the reference registries, the listeners attached to
  each store and the DOM tree are state.
\<close>

datatype bus_prim =
  On | Once | Emit | Off | Pool | Forward | DelayEmit | Threshold | ThresholdOnce | Attach

text \<open>A handler that the classes attach to a data store is a closure; it is kept as the
  values it captured. \<open>DriverRelay scope name sep e\<close> is the function of
  driver.js:562-572, \<open>ControllerRelay scope e\<close> that of controller.js:197-199.\<close>

datatype closure =
    DriverRelay string string string string
  | ControllerRelay string string

text \<open>The callback given to \<^verbatim>\<open>NGN.NET.template\<close>: the caller's own function
  (driver.js:393) or the arrow function of driver.js:412-420, which captured
  \<open>parent\<close>, \<open>position\<close> and \<open>callback\<close>.\<close>

datatype template_callback =
    UserCallback nat
  | RenderCallback jsval string jsval

datatype ext_call =
    BusCall bus_prim "jsval list"
  | RefCreate string string
  | NgnRefCreate string string
  | NetTemplate string jsval template_callback
  | QuerySelector string
  | InsertAdjacentHTML nat string string
  | InsertAdjacentElement nat string jsval
  | SvgUpdate jsval
  | UserCall nat "jsval list"

datatype console_level = Warn | Err

text \<open>An element seen from the outside: the siblings before it, its children and the
  siblings after it, each in document order.\<close>

record dom_node =
  before :: "jsval list"
  children :: "jsval list"
  after :: "jsval list"

text \<open>\<open>BUS\<close> tells whether \<^verbatim>\<open>NGN.BUS\<close> is there; \<open>REF\<close> is \<^verbatim>\<open>NGNX.REF\<close> and \<open>NGN_ref\<close> is
  \<^verbatim>\<open>NGN.ref\<close>, as the selector each name was created with; \<open>document\<close> answers
  \<^verbatim>\<open>document.querySelector\<close>; \<open>parse_html\<close> gives the nodes that a piece of markup
  becomes; \<open>has_DOM\<close> is \<^verbatim>\<open>NGN.hasOwnProperty('DOM')\<close>; \<open>svg_update\<close> gives the content that
  \<^verbatim>\<open>NGN.DOM.svg.update\<close> hands to its callback, if it ever does; \<open>css\<close> is \<^verbatim>\<open>NGN.css\<close>;
  \<open>GUID\<close> is what \<^verbatim>\<open>NGN.DATA.util.GUID()\<close> returns; \<open>fn_text\<close> is the source text of each
  function object.\<close>

record world =
  BUS :: bool
  calls :: "ext_call list"
  console :: "(console_level \<times> jsval list) list"
  REF :: "string \<rightharpoonup> string"
  NGN_ref :: "string \<rightharpoonup> string"
  listeners :: "nat \<Rightarrow> (string \<times> closure) list"
  document :: "string \<Rightarrow> nat option"
  dom :: "nat \<Rightarrow> dom_node"
  parse_html :: "string \<Rightarrow> jsval list"
  has_DOM :: bool
  svg_update :: "jsval \<Rightarrow> jsval option"
  css :: jsval
  GUID :: string
  fn_text :: "nat \<Rightarrow> string"

definition call_ext :: "ext_call \<Rightarrow> world \<Rightarrow> world" where
  "call_ext c w = w\<lparr>calls := calls w @ [c]\<rparr>"

definition console_warn :: "jsval list \<Rightarrow> world \<Rightarrow> world" where
  "console_warn args w = w\<lparr>console := console w @ [(Warn, args)]\<rparr>"

definition console_error :: "jsval list \<Rightarrow> world \<Rightarrow> world" where
  "console_error args w = w\<lparr>console := console w @ [(Err, args)]\<rparr>"

text \<open>\<^verbatim>\<open>NGN.BUS.prim(...)\<close>: reading a method of \<^verbatim>\<open>NGN.BUS\<close> when the bus is not there is a
  \<^verbatim>\<open>TypeError\<close>.\<close>

definition bus_call :: "bus_prim \<Rightarrow> jsval list \<Rightarrow> world \<Rightarrow> completion \<times> world" where
  "bus_call p args w =
     (if BUS w then (Normal, call_ext (BusCall p args) w) else (Throw TypeError, w))"

text \<open>\<^verbatim>\<open>store.on(e, handler)\<close> on the store at address \<open>a\<close>.\<close>

definition store_on :: "nat \<Rightarrow> string \<Rightarrow> closure \<Rightarrow> world \<Rightarrow> world" where
  "store_on a e h w = w\<lparr>listeners := (listeners w)(a := listeners w a @ [(e, h)])\<rparr>"

text \<open>The bus calls among the recorded calls, and the emissions among those: the
  argument list of each \<^verbatim>\<open>NGN.BUS.emit\<close>, the event name first.\<close>

fun bus_of :: "ext_call \<Rightarrow> (bus_prim \<times> jsval list) option" where
  "bus_of (BusCall p args) = Some (p, args)"
| "bus_of c = None"

definition bus_calls :: "world \<Rightarrow> (bus_prim \<times> jsval list) list" where
  "bus_calls w = List.map_filter bus_of (calls w)"

definition emissions :: "world \<Rightarrow> jsval list list" where
  "emissions w = map snd (filter (\<lambda>c. fst c = Emit) (bus_calls w))"

text \<open>\<^verbatim>\<open>obj[key] = v\<close> and \<^verbatim>\<open>obj.hasOwnProperty(key)\<close> on a plain object, kept as its
  entries in key order: an existing key keeps its place.\<close>

fun obj_set :: "(string \<times> 'v) list \<Rightarrow> string \<Rightarrow> 'v \<Rightarrow> (string \<times> 'v) list" where
  "obj_set [] k v = [(k, v)]"
| "obj_set ((k', v') # kvs) k v =
     (if k' = k then (k, v) # kvs else (k', v') # obj_set kvs k v)"

definition hasOwnProperty :: "(string \<times> 'v) list \<Rightarrow> string \<Rightarrow> bool" where
  "hasOwnProperty obj k = (k \<in> set (map fst obj))"

section \<open>Driver (src/src/driver.js)\<close>

record driver =
  scope :: "string option"
  id_d :: string
  ref :: "string list"
  datastores :: "(string \<times> nat) list"
  templates :: "(string \<times> string) list"

definition dataevents :: "string list" where
  "dataevents =
     [''record.create'', ''record.delete'', ''record.duplicate'', ''record.update'',
      ''record.expired'', ''record.restored'', ''record.purged'', ''index.create'',
      ''index.delete'', ''filter.create'', ''filter.remove'']"

definition separators :: "string list" where
  "separators = ['' '', ''-'', ''.'', ''_'', ''+'', '':'']"

text \<open>The name that the store listener of driver.js:562-572 puts in front of its
  arguments.\<close>

definition relay_name :: "string \<Rightarrow> string \<Rightarrow> string \<Rightarrow> string \<Rightarrow> string" where
  "relay_name sc name sep e =
     (if indexOf separators sep \<ge> 0 then sc @ name @ sep @ e else sc @ name @ e)"

text \<open>driver.js:553-577. \<^verbatim>\<open>me.datastores[name].on\<close> is a \<^verbatim>\<open>TypeError\<close> when the driver has
  no store of that name.\<close>

definition scopeStoreEvents :: "driver \<Rightarrow> string \<Rightarrow> bool option \<Rightarrow> world \<Rightarrow> completion \<times> world" where
  "scopeStoreEvents d name suppress w =
     (let suppress = coalesce suppress False in
      case scope d of
        Some sc \<Rightarrow>
          (let sep = substr sc (int (length sc) - 1) 1 in
           forEach dataevents
             (\<lambda>e w. case map_of (datastores d) name of
                       None \<Rightarrow> (Throw TypeError, w)
                     | Some st \<Rightarrow> (Normal, store_on st e (DriverRelay sc name sep e) w)) w)
      | None \<Rightarrow>
          (if \<not> suppress
           then (Normal, console_warn
                  [JStr ''Driver.scopeStoreEvents called without a defined namespace.''] w)
           else (Normal, w)))"

text \<open>driver.js:487-501.\<close>

definition addStore :: "driver \<Rightarrow> string \<Rightarrow> nat \<Rightarrow> world \<Rightarrow> completion \<times> driver \<times> world" where
  "addStore d name store w =
     (case (if hasOwnProperty (datastores d) name
            then (case (case scope d of
                          Some sc \<Rightarrow> forEach dataevents (\<lambda>e. bus_call Off [JStr (sc @ e)]) w
                        | None \<Rightarrow> (Normal, w)) of
                    (Throw err, w1) \<Rightarrow> (Throw err, w1)
                  | (Normal, w1) \<Rightarrow> (Normal, console_warn
                      [JStr (''Driver already had a reference to %c'' @ name
                             @ ''%c, which has been overwritten.''), css w1, JStr []] w1))
            else (Normal, w)) of
        (Throw err, w2) \<Rightarrow> (Throw err, d, w2)
      | (Normal, w2) \<Rightarrow>
          (let d' = d\<lparr>datastores := obj_set (datastores d) name store\<rparr> in
           case scopeStoreEvents d' name None w2 of (c, w3) \<Rightarrow> (c, d', w3)))"

text \<open>\<^verbatim>\<open>'' + v\<close>: the string that concatenation makes of a value. The classes concatenate
  strings, the \<^verbatim>\<open>arguments\<close> object of driver.js:594 and whatever non-object a caller
  hands to \<^verbatim>\<open>pool\<close> (a number, here an integer of magnitude below \<open>10\<^sup>2\<^sup>1\<close>, is printed
  in decimal; a function as its source text). An array is joined with commas; any other object, which the classes
  never concatenate, is given the text of \<^verbatim>\<open>Object.prototype.toString\<close>.\<close>

function nat_to_string :: "nat \<Rightarrow> string" where
  "nat_to_string n =
     (if n < 10 then [char_of (48 + n)]
      else nat_to_string (n div 10) @ [char_of (48 + n mod 10)])"
  by pat_completeness auto
termination
  by (relation "measure (\<lambda>n. n)") auto

fun join :: "string list \<Rightarrow> string" where
  "join [] = []"
| "join [s] = s"
| "join (s # t # ss) = s @ '','' @ join (t # ss)"

fun to_string :: "(nat \<Rightarrow> string) \<Rightarrow> jsval \<Rightarrow> string" where
  "to_string ft JUndefined = ''undefined''"
| "to_string ft JNull = ''null''"
| "to_string ft (JBool b) = (if b then ''true'' else ''false'')"
| "to_string ft (JNum n) =
     (if n < 0 then ''-'' @ nat_to_string (nat (- n)) else nat_to_string (nat n))"
| "to_string ft (JStr s) = s"
| "to_string ft (JFun f) = ft f"
| "to_string ft (JArgs xs) = ''[object Arguments]''"
| "to_string ft (JArr xs) =
     join (map (\<lambda>x. if x = JUndefined \<or> x = JNull then [] else to_string ft x) xs)"
| "to_string ft v = ''[object Object]''"

text \<open>\<^verbatim>\<open>arguments[i]\<close>, \<^verbatim>\<open>undefined\<close> beyond the end.\<close>

definition arg :: "jsval list \<Rightarrow> nat \<Rightarrow> jsval" where
  "arg arguments i = (if i < length arguments then arguments ! i else JUndefined)"

text \<open>driver.js:584-601. Inside \<^verbatim>\<open>applyNamespace (args)\<close> the name \<^verbatim>\<open>arguments\<close> is the
  method's own arguments object, whose only element is \<open>args\<close>. The result is the
  array-like that the caller hands to \<^verbatim>\<open>apply\<close>, \<open>None\<close> for \<^verbatim>\<open>undefined\<close>.\<close>

definition applyNamespace :: "driver \<Rightarrow> jsval list \<Rightarrow> world \<Rightarrow> jsval list option \<times> world" where
  "applyNamespace d args w =
     (let arguments = [JArgs args] in
      if length args = 0 then (Some arguments, w)
      else if typeof (arg args 0) \<noteq> ''string'' then (Some arguments, w)
      else if \<not> BUS w then
        (None, console_warn
           [JStr (''%cNGNX.Driver.on('' @ [CHR 0x27] @ to_string (fn_text w) (arg arguments 0)
                  @ [CHR 0x27]
                  @ '', ...)%c will not work because NGN.BUS is not available.''),
            css w, JStr []] w)
      else (Some (args[0 := JStr (coalesce (scope d) [] @ to_string (fn_text w) (arg args 0))]),
            w))"

text \<open>\<^verbatim>\<open>NGN.BUS.prim.apply(NGN.BUS, this.applyNamespace(arguments))\<close>: the callee
  \<^verbatim>\<open>NGN.BUS.prim.apply\<close> is evaluated before the argument, so a missing bus is a
  \<^verbatim>\<open>TypeError\<close> before \<^verbatim>\<open>applyNamespace\<close> runs; \<^verbatim>\<open>apply\<close> with \<^verbatim>\<open>undefined\<close> calls with no
  arguments.\<close>

definition bus_apply :: "bus_prim \<Rightarrow> driver \<Rightarrow> jsval list \<Rightarrow> world \<Rightarrow> completion \<times> world" where
  "bus_apply p d arguments w =
     (if \<not> BUS w then (Throw TypeError, w)
      else (case applyNamespace d arguments w of
              (None, w') \<Rightarrow> bus_call p [] w'
            | (Some args, w') \<Rightarrow> bus_call p args w'))"

text \<open>driver.js:734-744.\<close>

definition pool :: "driver \<Rightarrow> jsval \<Rightarrow> jsval \<Rightarrow> world \<Rightarrow> completion \<times> world" where
  "pool d extra data w =
     (let data = (if typeof extra = ''object'' then extra else data);
          extra = (if typeof extra = ''object'' then JStr [] else extra);
          scope = trim (coalesce (scope d) [] @ to_string (fn_text w) extra);
          scope = (if length scope > 0 then JStr scope else JNull)
      in bus_call Pool [scope, data] w)"

definition deprecation_notice :: "world \<Rightarrow> jsval list" where
  "deprecation_notice w =
     [JStr (''%cDEPRECATION NOTICE:%c '' @ [CHR 0x22] @ ''template.render'' @ [CHR 0x22]
            @ '' event is now '' @ [CHR 0x22] @ ''template.rendered'' @ [CHR 0x22]),
      css w, JStr []]"

text \<open>driver.js:611-624.\<close>

definition on :: "driver \<Rightarrow> jsval list \<Rightarrow> world \<Rightarrow> completion \<times> world" where
  "on d arguments w =
     (if length arguments > 0 \<and> typeof (arg arguments 0) = ''object''
      then pool d (arg arguments 0) (arg arguments 1) w
      else bus_apply On d arguments
             (if length arguments > 0 \<and> arg arguments 0 = JStr ''template.render''
              then console_warn (deprecation_notice w) w else w))"

text \<open>driver.js:634-646.\<close>

definition once :: "driver \<Rightarrow> jsval list \<Rightarrow> world \<Rightarrow> completion \<times> world" where
  "once d arguments w =
     (if length arguments > 0 \<and> typeof (arg arguments 0) = ''object''
      then (Throw (Error
              ''Nested/pooled events (object) are only supported for the on() method.''), w)
      else bus_apply Once d arguments
             (if length arguments > 0 \<and> arg arguments 0 = JStr ''template.render''
              then console_warn (deprecation_notice w) w else w))"

text \<open>driver.js:675-679 and 750-784.\<close>

definition emit :: "driver \<Rightarrow> jsval list \<Rightarrow> world \<Rightarrow> completion \<times> world" where
  "emit d arguments w = bus_apply Emit d arguments w"

definition forward :: "driver \<Rightarrow> jsval list \<Rightarrow> world \<Rightarrow> completion \<times> world" where
  "forward d arguments w = bus_apply Forward d arguments w"

definition delayEmit :: "driver \<Rightarrow> jsval list \<Rightarrow> world \<Rightarrow> completion \<times> world" where
  "delayEmit d arguments w = bus_apply DelayEmit d arguments w"

definition threshold :: "driver \<Rightarrow> jsval list \<Rightarrow> world \<Rightarrow> completion \<times> world" where
  "threshold d arguments w = bus_apply Threshold d arguments w"

definition thresholdOnce :: "driver \<Rightarrow> jsval list \<Rightarrow> world \<Rightarrow> completion \<times> world" where
  "thresholdOnce d arguments w = bus_apply ThresholdOnce d arguments w"

definition attach :: "driver \<Rightarrow> jsval list \<Rightarrow> world \<Rightarrow> completion \<times> world" where
  "attach d arguments w = bus_apply Attach d arguments w"

text \<open>driver.js:278-288. A configured one-time handler is a function or an object of
  further handlers.\<close>

datatype handlers = Handler nat | Nested "(string \<times> handlers) list"

fun initializeOneOffEvent ::
    "driver \<Rightarrow> string \<Rightarrow> handlers \<Rightarrow> string option \<Rightarrow> world \<Rightarrow> completion \<times> world"
  and initializeOneOffEvents ::
    "driver \<Rightarrow> (string \<times> handlers) list \<Rightarrow> string \<Rightarrow> world \<Rightarrow> completion \<times> world" where
  "initializeOneOffEvent d eventName (Handler f) namespace w =
     once d [JStr (coalesce namespace [] @ eventName), JFun f] w"
| "initializeOneOffEvent d eventName (Nested hs) namespace w =
     initializeOneOffEvents d hs (coalesce namespace [] @ eventName @ ''.'') w"
| "initializeOneOffEvents d [] namespace w = (Normal, w)"
| "initializeOneOffEvents d (h # hs) namespace w =
     (case initializeOneOffEvent d (fst h) (snd h) (Some namespace) w of
        (Throw err, w') \<Rightarrow> (Throw err, w')
      | (Normal, w') \<Rightarrow> initializeOneOffEvents d hs namespace w')"

text \<open>Modelled from the spec: \<^verbatim>\<open>NGNX.REF.create(name, selector)\<close> and
  \<^verbatim>\<open>NGN.ref.create(name, selector)\<close> of the external reference registries (section 6,
  "DOM reference registry: create(name, selector), lookup by name"). A name is defined
  in the registry from the moment it is created, with the selector it was created
  with.\<close>

definition REF_create :: "string \<Rightarrow> string \<Rightarrow> world \<Rightarrow> world" where
  "REF_create name selector w =
     (call_ext (RefCreate name selector) w)\<lparr>REF := (REF w)(name \<mapsto> selector)\<rparr>"

definition NGN_ref_create :: "string \<Rightarrow> string \<Rightarrow> world \<Rightarrow> world" where
  "NGN_ref_create name selector w =
     (call_ext (NgnRefCreate name selector) w)\<lparr>NGN_ref := (NGN_ref w)(name \<mapsto> selector)\<rparr>"

text \<open>driver.js:299-314. \<open>ref d\<close> holds the names for which the driver has defined a
  getter on \<^verbatim>\<open>this.ref\<close>.\<close>

definition createReference ::
    "driver \<Rightarrow> string \<Rightarrow> string \<Rightarrow> world \<Rightarrow> completion \<times> driver \<times> world" where
  "createReference d name selector w =
     (if selector = []
      then (Throw (Error (''Invalid selector specified for new '' @ name @ '' reference.'')),
            d, w)
      else (let originalName = name;
                name = id_d d @ ''-'' @ name
            in if REF w name = None
               then (Normal, d\<lparr>ref := List.insert originalName (ref d)\<rparr>,
                     REF_create name selector w)
               else (Normal, d, w)))"

text \<open>driver.js:324-326 and 336-338.\<close>

definition addReference ::
    "driver \<Rightarrow> string \<Rightarrow> string \<Rightarrow> world \<Rightarrow> completion \<times> driver \<times> world" where
  "addReference d name selector w = createReference d name selector w"

definition addTemplate :: "driver \<Rightarrow> string \<Rightarrow> string \<Rightarrow> driver" where
  "addTemplate d name source = d\<lparr>templates := obj_set (templates d) name source\<rparr>"













text \<open>driver.js:376-421, up to the call of \<^verbatim>\<open>NGN.NET.template\<close>, which is given a
  callback and returns.\<close>

definition render ::
    "driver \<Rightarrow> string \<Rightarrow> jsval \<Rightarrow> jsval \<Rightarrow> jsval \<Rightarrow> jsval \<Rightarrow> world \<Rightarrow> completion \<times> world" where
  "render d name data parent position callback w =
     (case map_of (templates d) name of
        None \<Rightarrow>
          (Throw (Error (''The Driver does not have a reference to a template called ''
                          @ trim name @ ''.'')), w)
      | Some source \<Rightarrow>
          (let data = (case data of JEntity representation \<Rightarrow> representation | _ \<Rightarrow> data) in
           if typeof data \<noteq> ''object''
           then (Throw (Error (''The data provided to the renderer could not be processed ''
                                @ ''because it is not a key/value object.'')),
                 console_error [JStr ''Invalid Data'', data] w)
           else (case parent of
                   JFun f \<Rightarrow> (Normal, call_ext (NetTemplate source data (UserCallback f)) w)
                 | _ \<Rightarrow>
                     (let w1 = (case parent of
                                  JStr p \<Rightarrow> call_ext (QuerySelector p) w
                                | _ \<Rightarrow> w);
                          found = (case parent of
                                     JStr p \<Rightarrow>
                                       (case document w p of
                                          None \<Rightarrow> JNull
                                        | Some n \<Rightarrow> JNode n)
                                   | _ \<Rightarrow> parent)
                      in if typeof parent = ''string'' \<and> found = JNull
                         then (Normal, console_warn
                                 [JStr (''%c'' @ to_string (fn_text w) parent
                                        @ ''%c is not a valid selector or the referenced ''
                                        @ ''parent DOM element could not be found.''),
                                  css w1, JStr []] w1)
                         else (case (if truthy position then position else JStr ''beforeend'') of
                                 JStr pos \<Rightarrow>
                                   (Normal, call_ext
                                      (NetTemplate source data
                                         (RenderCallback found (toLowerCase pos) callback)) w1)
                               | _ \<Rightarrow> (Throw TypeError, w1))))))"


text \<open>driver.js:29-258. The configuration object, with \<open>None\<close> for an option that is
  not given.\<close>

record config =
  namespace :: "string option"
  references :: "(string \<times> string) list option"
  ref_cfg :: "(string \<times> string) list option"
  stores :: "(string \<times> nat) list option"
  templates_cfg :: "(string \<times> string) list option"
  on_cfg :: "jsval option"
  events_cfg :: "jsval option"
  pool_cfg :: "jsval option"
  once_cfg :: "(string \<times> handlers) list option"
  forward_cfg :: "(string \<times> jsval) list option"
  id_cfg :: "string option"

definition new_Driver :: "config \<Rightarrow> world \<Rightarrow> completion \<times> driver \<times> world" where
  "new_Driver cfg w =
     (let d = \<lparr>scope = (case namespace cfg of
                          Some n \<Rightarrow> (if n \<noteq> [] then Some n else None)
                        | None \<Rightarrow> None),
               id_d = strip_non_alnum
                        (case id_cfg cfg of
                           Some i \<Rightarrow> i
                         | None \<Rightarrow> (case namespace cfg of Some n \<Rightarrow> n | None \<Rightarrow> GUID w)),
               ref = [],
               datastores = (case stores cfg of Some s \<Rightarrow> s | None \<Rightarrow> []),
               templates = (case templates_cfg cfg of Some t \<Rightarrow> t | None \<Rightarrow> [])\<rparr>;
          references = (case references cfg of
                          Some r \<Rightarrow> r
                        | None \<Rightarrow> (case ref_cfg cfg of Some r \<Rightarrow> r | None \<Rightarrow> []));
          initialpool = (case on_cfg cfg of
                           Some h \<Rightarrow> h
                         | None \<Rightarrow> (case events_cfg cfg of
                                       Some h \<Rightarrow> h
                                     | None \<Rightarrow> (case pool_cfg cfg of
                                                   Some h \<Rightarrow> h
                                                 | None \<Rightarrow> JNull)))
      in case forEach references
                (\<lambda>r s. createReference (fst s) (fst r) (snd r) (snd s)) (d, w) of
           (Throw err, s1) \<Rightarrow> (Throw err, s1)
         | (Normal, (d1, w1)) \<Rightarrow>
             (case (if scope d1 \<noteq> None
                    then forEach (map fst (datastores d1))
                           (\<lambda>name. scopeStoreEvents d1 name None) w1
                    else (Normal, w1)) of
                (Throw err, w2) \<Rightarrow> (Throw err, d1, w2)
              | (Normal, w2) \<Rightarrow>
                  (case (if truthy initialpool then pool d1 initialpool JUndefined w2
                         else (Normal, w2)) of
                     (Throw err, w3) \<Rightarrow> (Throw err, d1, w3)
                   | (Normal, w3) \<Rightarrow>
                       (case (case once_cfg cfg of
                                Some hs \<Rightarrow>
                                  forEach hs
                                    (\<lambda>h. initializeOneOffEvent d1 (fst h) (snd h) None) w3
                              | None \<Rightarrow> (Normal, w3)) of
                          (Throw err, w4) \<Rightarrow> (Throw err, d1, w4)
                        | (Normal, w4) \<Rightarrow>
                            (case (case forward_cfg cfg of
                                     Some fs \<Rightarrow>
                                       forEach fs
                                         (\<lambda>f. forward d1 [JStr (fst f), snd f]) w4
                                   | None \<Rightarrow> (Normal, w4)) of
                               (c, w5) \<Rightarrow> (c, d1, w5))))))"

section \<open>Controller (src/src/controller.js)\<close>

record controller =
  scope_c :: "string option"
  references_c :: "(string \<times> string) list"
  datastores_c :: "(string \<times> nat) list"
  events_c :: "string list"

definition dataevents_c :: "string list" where
  "dataevents_c =
     [''record.create'', ''record.delete'', ''index.create'', ''index.delete'',
      ''record.duplicate'', ''record.update'']"

text \<open>controller.js:192-204.\<close>

definition scopeStoreEvents_c ::
    "controller \<Rightarrow> string \<Rightarrow> bool option \<Rightarrow> world \<Rightarrow> completion \<times> world" where
  "scopeStoreEvents_c c name suppress w =
     (let suppress = coalesce suppress False in
      case scope_c c of
        Some sc \<Rightarrow>
          forEach dataevents_c
            (\<lambda>e w. case map_of (datastores_c c) name of
                      None \<Rightarrow> (Throw TypeError, w)
                    | Some st \<Rightarrow> (Normal, store_on st e (ControllerRelay sc e) w)) w
      | None \<Rightarrow>
          (if \<not> suppress
           then (Normal, console_warn
                  [JStr ''Controller.scopeStoreEvents called without a defined scope.''] w)
           else (Normal, w)))"

text \<open>controller.js:168-181.\<close>

definition addStore_c ::
    "controller \<Rightarrow> string \<Rightarrow> nat \<Rightarrow> world \<Rightarrow> completion \<times> controller \<times> world" where
  "addStore_c c name store w =
     (case (if hasOwnProperty (datastores_c c) name
            then (case (case scope_c c of
                          Some sc \<Rightarrow> forEach dataevents_c (\<lambda>e. bus_call Off [JStr (sc @ e)]) w
                        | None \<Rightarrow> (Normal, w)) of
                    (Throw err, w1) \<Rightarrow> (Throw err, w1)
                  | (Normal, w1) \<Rightarrow> (Normal, console_warn
                      [JStr (''Controller already had a reference to '' @ name
                             @ '', which has been overwritten.'')] w1))
            else (Normal, w)) of
        (Throw err, w2) \<Rightarrow> (Throw err, c, w2)
      | (Normal, w2) \<Rightarrow>
          (let c' = c\<lparr>datastores_c := obj_set (datastores_c c) name store\<rparr> in
           case scopeStoreEvents_c c' name None w2 of (r, w3) \<Rightarrow> (r, c', w3)))"

text \<open>controller.js:238-248.\<close>

definition on_c :: "controller \<Rightarrow> string \<Rightarrow> jsval \<Rightarrow> world \<Rightarrow> completion \<times> world" where
  "on_c c topic handler w =
     (if \<not> BUS w
      then (Normal, console_warn
              [JStr (''NGNX.Controller.on('' @ [CHR 0x27] @ topic @ [CHR 0x27]
                     @ '', ...) will not work because NGN.BUS is not available.'')] w)
      else if indexOf (events_c c) topic \<ge> 0
      then bus_call On [JStr topic, handler] w
      else (Normal, console_warn
              [JStr (topic @ '' is not a supported event for this Controller.'')] w))"

text \<open>controller.js:28-145.\<close>

record config_c =
  scope_cfg :: "string option"
  references_cfg :: "(string \<times> string) list option"
  stores_cfg :: "(string \<times> nat) list option"

definition new_Controller :: "config_c \<Rightarrow> world \<Rightarrow> completion \<times> controller \<times> world" where
  "new_Controller cfg w =
     (let c = \<lparr>scope_c = (case scope_cfg cfg of
                            Some n \<Rightarrow> (if n \<noteq> [] then Some n else None)
                          | None \<Rightarrow> None),
               references_c = (case references_cfg cfg of Some r \<Rightarrow> r | None \<Rightarrow> []),
               datastores_c = (case stores_cfg cfg of Some s \<Rightarrow> s | None \<Rightarrow> []),
               events_c = []\<rparr>
      in case forEach (references_c c)
                (\<lambda>r w. if NGN_ref w (fst r) = None
                        then (Normal, NGN_ref_create (fst r) (snd r) w)
                        else (Normal, w)) w of
           (Throw err, w1) \<Rightarrow> (Throw err, c, w1)
         | (Normal, w1) \<Rightarrow>
             (case (if scope_c c \<noteq> None
                    then forEach (map fst (datastores_c c))
                           (\<lambda>name. scopeStoreEvents_c c name None) w1
                    else (Normal, w1)) of
                (r, w2) \<Rightarrow> (r, c, w2)))"

section \<open>Data stores\<close>

text \<open>Running a listener that one of the classes attached: driver.js:562-572 and
  controller.js:197-199.\<close>

fun run_listener :: "closure \<Rightarrow> jsval list \<Rightarrow> world \<Rightarrow> completion \<times> world" where
  "run_listener (DriverRelay sc name sep e) arguments w =
     (let args = arguments;
          args = JStr (relay_name sc name sep e) # args
      in bus_call Emit args w)"
| "run_listener (ControllerRelay sc e) arguments w =
     (let model = (case arguments of [] \<Rightarrow> JUndefined | m # _ \<Rightarrow> m)
      in bus_call Emit [JStr (sc @ e), model] w)"

text \<open>Modelled from the spec: the data store is an external event emitter (section 6,
  "Datastore: emits the fixed lifecycle event kinds; supports on(eventKind, handler)").
  Firing \<open>kind\<close> on the store at \<open>a\<close> with a payload runs the listeners attached for that
  kind, in the order they were attached.\<close>

definition fire :: "nat \<Rightarrow> string \<Rightarrow> jsval list \<Rightarrow> world \<Rightarrow> completion \<times> world" where
  "fire a kind payload w =
     forEach (filter (\<lambda>l. fst l = kind) (listeners w a)) (\<lambda>l. run_listener (snd l) payload) w"

section \<open>Example configurations\<close>

text \<open>A world with the bus available and nothing registered yet; a driver and a
  controller with the namespace \<^verbatim>\<open>shop.\<close> and one store \<^verbatim>\<open>cart\<close> (the store object at
  address 10), as their constructors build them from \<open>cfg0\<close> and \<open>cfg0_c\<close>.\<close>

definition world0 :: world where
  "world0 =
     \<lparr>BUS = True, calls = [], console = [], REF = Map.empty, NGN_ref = Map.empty,
      listeners = (\<lambda>a. []), document = (\<lambda>s. None),
      dom = (\<lambda>n. \<lparr>before = [], children = [], after = []\<rparr>),
      parse_html = (\<lambda>s. [JStr s]), has_DOM = False, svg_update = (\<lambda>v. None),
      css = JStr [], GUID = ''guid'', fn_text = (\<lambda>f. ''function () {}'')\<rparr>"

definition cfg0 :: config where
  "cfg0 = \<lparr>namespace = Some ''shop.'', references = None, ref_cfg = None,
     stores = Some [(''cart'', 10)], templates_cfg = Some [(''view'', ''./view.html'')],
     on_cfg = None, events_cfg = None, pool_cfg = None, once_cfg = None,
     forward_cfg = None, id_cfg = None\<rparr>"

definition driver0 :: driver where
  "driver0 = \<lparr>scope = Some ''shop.'', id_d = ''shop'', ref = [],
     datastores = [(''cart'', 10)], templates = [(''view'', ''./view.html'')]\<rparr>"

definition cfg0_c :: config_c where
  "cfg0_c =
     \<lparr>scope_cfg = Some ''shop.'', references_cfg = None, stores_cfg = Some [(''cart'', 10)]\<rparr>"

definition controller0 :: controller where
  "controller0 = \<lparr>scope_c = Some ''shop.'', references_c = [],
     datastores_c = [(''cart'', 10)], events_c = []\<rparr>"



definition world_nav :: world where
  "world_nav = snd (snd (createReference driver0 ''nav'' ''#one'' world0))"

definition driver_nav :: driver where
  "driver_nav = fst (snd (createReference driver0 ''nav'' ''#one'' world0))"

section \<open>Built-ins and the recorded calls\<close>

lemma substr_last: "substr s (int (length s) - 1) 1 = (if s = [] then [] else [last s])"
proof (cases s rule: rev_cases)
  case Nil
  then show ?thesis by (simp add: substr_def)
next
  case (snoc ys y)
  then show ?thesis by (simp add: substr_def Let_def)
qed

lemma indexOf_nonneg: "(indexOf xs x \<ge> 0) = (x \<in> set xs)"
  by (induction xs) (auto simp: Let_def)

lemma forEach_single: "forEach [x] f s = f x s"
  by (cases "f x s") (auto split: completion.splits)

lemma map_of_obj_set: "map_of (obj_set kvs k v) k = Some v"
  by (induction kvs) auto

lemma hasOwnProperty_map_of: "hasOwnProperty kvs k = (map_of kvs k \<noteq> None)"
  by (simp add: hasOwnProperty_def map_of_eq_None_iff)

lemma bus_calls_call_ext [simp]:
  "bus_calls (call_ext c w) = bus_calls w @ (case bus_of c of None \<Rightarrow> [] | Some b \<Rightarrow> [b])"
  by (simp add: bus_calls_def call_ext_def List.map_filter_def split: option.splits)

lemma emissions_call_ext_emit [simp]:
  "emissions (call_ext (BusCall p args) w) = emissions w @ (if p = Emit then [args] else [])"
  by (simp add: emissions_def)

lemma bus_calls_off:
  "List.map_filter bus_of (cs @ map (\<lambda>e. BusCall Off (f e)) es) =
     List.map_filter bus_of cs @ map (\<lambda>e. (Off, f e)) es"
  by (simp add: List.map_filter_def comp_def)

lemma no_emit_among_off: "filter (\<lambda>c. fst c = Emit) (map (\<lambda>e. (Off, f e)) es) = []"
  by (induction es) simp_all

lemma forEach_off:
  "BUS w \<Longrightarrow> forEach es (\<lambda>e. bus_call Off [JStr (N @ e)]) w =
     (Normal, w\<lparr>calls := calls w @ map (\<lambda>e. BusCall Off [JStr (N @ e)]) es\<rparr>)"
  by (induction es arbitrary: w) (simp_all add: bus_call_def call_ext_def)

lemma emissions_world0: "emissions world0 = []"
  by (simp add: emissions_def bus_calls_def world0_def List.map_filter_def)

section \<open>The store relay\<close>

lemma forEach_store_on:
  "forEach es (\<lambda>e w. (Normal, store_on st e (h e) w)) w =
     (Normal, w\<lparr>listeners := (listeners w)(st := listeners w st @ map (\<lambda>e. (e, h e)) es)\<rparr>)"
  by (induction es arbitrary: w) (simp_all add: store_on_def)

text \<open>What \<^verbatim>\<open>Driver.scopeStoreEvents\<close> does for a driver with a namespace: one listener
  per lifecycle kind is added to the store, and nothing else changes.\<close>

lemma scopeStoreEvents_scoped:
  assumes "scope d = Some sc" and "map_of (datastores d) name = Some st"
  shows "scopeStoreEvents d name suppress w =
     (Normal, w\<lparr>listeners := (listeners w)(st := listeners w st @
        map (\<lambda>e. (e, DriverRelay sc name (if sc = [] then [] else [last sc]) e))
          dataevents)\<rparr>)"
  unfolding scopeStoreEvents_def Let_def substr_last
  using assms by (simp add: forEach_store_on)

lemma scopeStoreEvents_c_scoped:
  assumes "scope_c c = Some sc" and "map_of (datastores_c c) name = Some st"
  shows "scopeStoreEvents_c c name suppress w =
     (Normal, w\<lparr>listeners := (listeners w)(st := listeners w st @
        map (\<lambda>e. (e, ControllerRelay sc e)) dataevents_c)\<rparr>)"
  using assms by (simp add: scopeStoreEvents_c_def Let_def forEach_store_on)

lemma distinct_dataevents: "distinct dataevents"
  by (simp add: dataevents_def)

lemma distinct_dataevents_c: "distinct dataevents_c"
  by (simp add: dataevents_c_def)

lemma filter_fst_map:
  "distinct es \<Longrightarrow> k \<in> set es \<Longrightarrow> filter (\<lambda>l. fst l = k) (map (\<lambda>e. (e, h e)) es) = [(k, h k)]"
  by (induction es) (auto simp: filter_empty_conv)

lemma fire_single:
  "filter (\<lambda>l. fst l = K) (listeners w a) = [(K, h)] \<Longrightarrow> fire a K p w = run_listener h p w"
  by (simp add: fire_def forEach_single del: forEach.simps)

lemma separator_char:
  "([c] \<in> set separators) =
     (c \<in> {CHR '' '', CHR ''-'', CHR ''.'', CHR ''_'', CHR ''+'', CHR '':''})"
  by (simp add: separators_def)

lemma separator_nonempty: "[] \<notin> set separators"
  by (simp add: separators_def)

lemma relay_name_eq:
  "relay_name N S (if N = [] then [] else [last N]) K =
     (if N \<noteq> [] \<and> last N \<in> {CHR '' '', CHR ''-'', CHR ''.'', CHR ''_'', CHR ''+'', CHR '':''}
      then N @ S @ [last N] @ K else N @ S @ K)"
proof (cases "N = []")
  case True
  then show ?thesis
    by (simp only: relay_name_def indexOf_nonneg separator_nonempty if_True if_False simp_thms)
next
  case False
  then show ?thesis
    by (simp only: relay_name_def indexOf_nonneg separator_char if_False simp_thms)
qed

lemma fire_after_scopeStoreEvents:
  assumes "scope d = Some N" and "map_of (datastores d) S = Some a"
    and "listeners w a = []" and "BUS w" and "K \<in> set dataevents"
  shows "fire a K payload (snd (scopeStoreEvents d S suppress w)) =
     (Normal, call_ext (BusCall Emit
         (JStr (relay_name N S (if N = [] then [] else [last N]) K) # payload))
       (snd (scopeStoreEvents d S suppress w)))"
  using assms
  by (simp add: scopeStoreEvents_scoped fire_def filter_fst_map distinct_dataevents
      bus_call_def Let_def)

text \<open>C4. For every namespace \<open>N\<close>, the listeners that \<^verbatim>\<open>scopeStoreEvents\<close> attaches to the
  store registered as \<open>S\<close> re-emit a lifecycle event \<open>K\<close> under the name
  \<open>N + S + separator + K\<close>, where the separator is the last character of \<open>N\<close> when that
  is a space, \<^verbatim>\<open>-\<close>, \<^verbatim>\<open>.\<close>, \<^verbatim>\<open>_\<close>, \<^verbatim>\<open>+\<close> or \<^verbatim>\<open>:\<close>, and under \<open>N + S + K\<close> for any other
  last character.\<close>

theorem store_relay_event_name:
  assumes "scope d = Some N" and "map_of (datastores d) S = Some a"
    and "listeners w a = []" and "BUS w" and "K \<in> set dataevents"
  shows "fst (scopeStoreEvents d S suppress w) = Normal \<and>
     fst (fire a K payload (snd (scopeStoreEvents d S suppress w))) = Normal \<and>
     emissions (snd (fire a K payload (snd (scopeStoreEvents d S suppress w)))) =
       emissions w @
       [JStr (if N \<noteq> [] \<and>
                 last N \<in> {CHR '' '', CHR ''-'', CHR ''.'', CHR ''_'', CHR ''+'', CHR '':''}
              then N @ S @ [last N] @ K else N @ S @ K) # payload]"
proof -
  have a: "fst (scopeStoreEvents d S suppress w) = Normal"
    using assms by (simp add: scopeStoreEvents_scoped)
  have e: "emissions (snd (scopeStoreEvents d S suppress w)) = emissions w"
    using assms by (simp add: scopeStoreEvents_scoped emissions_def bus_calls_def)
  show ?thesis
    unfolding fire_after_scopeStoreEvents [OF assms] relay_name_eq
    using a e by simp
qed

lemma driver0_facts:
  "scope driver0 = Some ''shop.''" "map_of (datastores driver0) ''cart'' = Some 10"
  "listeners world0 10 = []" "BUS world0"
  by (simp_all add: driver0_def world0_def)

lemma controller0_facts:
  "scope_c controller0 = Some ''shop.''" "map_of (datastores_c controller0) ''cart'' = Some 10"
  by (simp_all add: controller0_def)

lemma record_create_kind:
  "''record.create'' \<in> set dataevents" "''record.create'' \<in> set dataevents_c"
  by (simp_all add: dataevents_def dataevents_c_def)

theorem store_relay_event_name_witness:
  "scope driver0 = Some ''shop.'' \<and> map_of (datastores driver0) ''cart'' = Some 10 \<and>
   listeners world0 10 = [] \<and> BUS world0 \<and> ''record.create'' \<in> set dataevents \<and>
   emissions (snd (fire 10 ''record.create'' [JObj [(''id'', JNum 1)]]
      (snd (scopeStoreEvents driver0 ''cart'' None world0)))) =
     [[JStr ''shop.cart.record.create'', JObj [(''id'', JNum 1)]]]"
  using driver0_facts record_create_kind(1) emissions_world0
    store_relay_event_name [OF driver0_facts record_create_kind(1),
      where payload = "[JObj [(''id'', JNum 1)]]" and suppress = None]
  by simp

section \<open>What the constructors build from the example configurations\<close>

lemma strip_shop: "strip_non_alnum ''shop.'' = ''shop''"
  by (simp add: strip_non_alnum_def is_alnum_def)

lemma new_Driver_cfg0:
  "new_Driver cfg0 w = (Normal, driver0, snd (scopeStoreEvents driver0 ''cart'' None w))"
  by (simp add: new_Driver_def cfg0_def driver0_def strip_shop Let_def
      scopeStoreEvents_scoped [where sc = "''shop.''" and st = 10])

lemma new_Controller_cfg0_c:
  "new_Controller cfg0_c w =
     (Normal, controller0, snd (scopeStoreEvents_c controller0 ''cart'' None w))"
  by (simp add: new_Controller_def cfg0_c_def controller0_def Let_def
      scopeStoreEvents_c_scoped [where sc = "''shop.''" and st = 10])

lemma shop_cart_name: "relay_name ''shop.'' ''cart'' ''.'' K = ''shop.cart.'' @ K"
  by (simp add: relay_name_def separators_def)

lemma driver0_scoped:
  "BUS (snd (scopeStoreEvents driver0 ''cart'' None world0))"
  "emissions (snd (scopeStoreEvents driver0 ''cart'' None world0)) = []"
  "filter (\<lambda>l. fst l = ''record.create'')
      (listeners (snd (scopeStoreEvents driver0 ''cart'' None world0)) 10) =
     [(''record.create'', DriverRelay ''shop.'' ''cart'' ''.'' ''record.create'')]"
proof -
  have e: "emissions (world0\<lparr>listeners := l\<rparr>) = []" for l
    using emissions_world0 by (simp add: emissions_def bus_calls_def)
  show "BUS (snd (scopeStoreEvents driver0 ''cart'' None world0))"
    by (simp add: scopeStoreEvents_scoped [OF driver0_facts(1,2)] driver0_facts)
  show "emissions (snd (scopeStoreEvents driver0 ''cart'' None world0)) = []"
    by (simp add: scopeStoreEvents_scoped [OF driver0_facts(1,2)] e)
  show "filter (\<lambda>l. fst l = ''record.create'')
      (listeners (snd (scopeStoreEvents driver0 ''cart'' None world0)) 10) =
     [(''record.create'', DriverRelay ''shop.'' ''cart'' ''.'' ''record.create'')]"
    by (simp add: scopeStoreEvents_scoped [OF driver0_facts(1,2)] driver0_facts
        filter_fst_map distinct_dataevents record_create_kind)
qed

lemma controller0_scoped:
  "BUS (snd (scopeStoreEvents_c controller0 ''cart'' None world0))"
  "emissions (snd (scopeStoreEvents_c controller0 ''cart'' None world0)) = []"
  "filter (\<lambda>l. fst l = ''record.create'')
      (listeners (snd (scopeStoreEvents_c controller0 ''cart'' None world0)) 10) =
     [(''record.create'', ControllerRelay ''shop.'' ''record.create'')]"
proof -
  have e: "emissions (world0\<lparr>listeners := l\<rparr>) = []" for l
    using emissions_world0 by (simp add: emissions_def bus_calls_def)
  show "BUS (snd (scopeStoreEvents_c controller0 ''cart'' None world0))"
    by (simp add: scopeStoreEvents_c_scoped [OF controller0_facts] driver0_facts)
  show "emissions (snd (scopeStoreEvents_c controller0 ''cart'' None world0)) = []"
    by (simp add: scopeStoreEvents_c_scoped [OF controller0_facts] e)
  show "filter (\<lambda>l. fst l = ''record.create'')
      (listeners (snd (scopeStoreEvents_c controller0 ''cart'' None world0)) 10) =
     [(''record.create'', ControllerRelay ''shop.'' ''record.create'')]"
    by (simp add: scopeStoreEvents_c_scoped [OF controller0_facts] driver0_facts
        filter_fst_map distinct_dataevents_c record_create_kind)
qed

text \<open>C2. The claim: firing a lifecycle event on a registered store causes two bus
  emissions, \<open>N + K\<close> and \<open>N + S + C + K\<close>. The code at the spec's own example (namespace
  \<^verbatim>\<open>shop.\<close>, store \<^verbatim>\<open>cart\<close>, event \<^verbatim>\<open>record.create\<close> with payload \<^verbatim>\<open>{id: 1}\<close>): the driver emits
  the store-qualified event alone, the controller the unqualified event alone.\<close>

theorem store_event_emits_one_name_only:
  "emissions (snd (fire 10 ''record.create'' [JObj [(''id'', JNum 1)]]
      (snd (snd (new_Driver cfg0 world0))))) =
     [[JStr ''shop.cart.record.create'', JObj [(''id'', JNum 1)]]] \<and>
   emissions (snd (fire 10 ''record.create'' [JObj [(''id'', JNum 1)]]
      (snd (snd (new_Controller cfg0_c world0))))) =
     [[JStr ''shop.record.create'', JObj [(''id'', JNum 1)]]]"
  using driver0_scoped(1,2) controller0_scoped(1,2)
  by (simp add: new_Driver_cfg0 new_Controller_cfg0_c fire_single [OF driver0_scoped(3)]
      fire_single [OF controller0_scoped(3)] bus_call_def shop_cart_name)

section \<open>Overwriting a store\<close>

text \<open>What \<^verbatim>\<open>addStore\<close> does when the name is taken, the namespace is set and the bus is
  there: \<^verbatim>\<open>NGN.BUS.off\<close> for each namespaced kind, a warning, the new entry and new
  listeners on the new store. The listeners of the store that was registered before
  are not touched.\<close>

lemma addStore_overwrite_eq:
  assumes "scope d = Some N" and "BUS w" and "map_of (datastores d) S = Some old"
  shows "addStore d S new w =
     (Normal, d\<lparr>datastores := obj_set (datastores d) S new\<rparr>,
      w\<lparr>calls := calls w @ map (\<lambda>e. BusCall Off [JStr (N @ e)]) dataevents,
        console := console w @
           [(Warn, [JStr (''Driver already had a reference to %c'' @ S
                          @ ''%c, which has been overwritten.''), css w, JStr []])],
        listeners := (listeners w)(new := listeners w new @
           map (\<lambda>e. (e, DriverRelay N S (if N = [] then [] else [last N]) e))
             dataevents)\<rparr>)"
  using assms
  by (simp add: addStore_def hasOwnProperty_map_of forEach_off Let_def console_warn_def
      scopeStoreEvents_scoped [where sc = N and st = new] map_of_obj_set)

lemma addStore_overwrite:
  assumes "scope d = Some N" and "BUS w" and "map_of (datastores d) S = Some old"
    and "old \<noteq> new"
  shows "fst (addStore d S new w) = Normal"
    and "BUS (snd (snd (addStore d S new w)))"
    and "listeners (snd (snd (addStore d S new w))) old = listeners w old"
    and "emissions (snd (snd (addStore d S new w))) = emissions w"
    and "console (snd (snd (addStore d S new w))) = console w @
           [(Warn, [JStr (''Driver already had a reference to %c'' @ S
                          @ ''%c, which has been overwritten.''), css w, JStr []])]"
  using assms(2,4)
  by (simp_all add: addStore_overwrite_eq [OF assms(1-3)] emissions_def bus_calls_def
      bus_calls_off no_emit_among_off)

lemma addStore_c_overwrite_eq:
  assumes "scope_c c = Some N" and "BUS w" and "map_of (datastores_c c) S = Some old"
  shows "addStore_c c S new w =
     (Normal, c\<lparr>datastores_c := obj_set (datastores_c c) S new\<rparr>,
      w\<lparr>calls := calls w @ map (\<lambda>e. BusCall Off [JStr (N @ e)]) dataevents_c,
        console := console w @
           [(Warn, [JStr (''Controller already had a reference to '' @ S
                          @ '', which has been overwritten.'')])],
        listeners := (listeners w)(new := listeners w new @
           map (\<lambda>e. (e, ControllerRelay N e)) dataevents_c)\<rparr>)"
  using assms
  by (simp add: addStore_c_def hasOwnProperty_map_of forEach_off Let_def console_warn_def
      scopeStoreEvents_c_scoped [where sc = N and st = new] map_of_obj_set)

lemma addStore_c_overwrite:
  assumes "scope_c c = Some N" and "BUS w" and "map_of (datastores_c c) S = Some old"
    and "old \<noteq> new"
  shows "fst (addStore_c c S new w) = Normal"
    and "BUS (snd (snd (addStore_c c S new w)))"
    and "listeners (snd (snd (addStore_c c S new w))) old = listeners w old"
    and "emissions (snd (snd (addStore_c c S new w))) = emissions w"
  using assms(2,4)
  by (simp_all add: addStore_c_overwrite_eq [OF assms(1-3)] emissions_def bus_calls_def
      bus_calls_off no_emit_among_off)

text \<open>C3. The claim: after a store is registered again under the same name, firing a
  lifecycle event on the old store object produces no bus emission. The code, for the
  driver and the controller built from \<open>cfg0\<close> and \<open>cfg0_c\<close>, after
  \<^verbatim>\<open>addStore('cart', newStore)\<close> (the new store at address 20): firing
  \<^verbatim>\<open>record.create\<close> on the old store still emits.\<close>

theorem overwritten_store_still_relays:
  "fst (addStore driver0 ''cart'' 20 (snd (snd (new_Driver cfg0 world0)))) = Normal \<and>
   emissions (snd (fire 10 ''record.create'' [JObj [(''id'', JNum 1)]]
      (snd (snd (addStore driver0 ''cart'' 20 (snd (snd (new_Driver cfg0 world0)))))))) =
     [[JStr ''shop.cart.record.create'', JObj [(''id'', JNum 1)]]] \<and>
   fst (addStore_c controller0 ''cart'' 20 (snd (snd (new_Controller cfg0_c world0)))) = Normal \<and>
   emissions (snd (fire 10 ''record.create'' [JObj [(''id'', JNum 1)]]
      (snd (snd (addStore_c controller0 ''cart'' 20
         (snd (snd (new_Controller cfg0_c world0)))))))) =
     [[JStr ''shop.record.create'', JObj [(''id'', JNum 1)]]]"
proof -
  let ?p = "[JObj [(''id'', JNum 1)]]"
  let ?w1 = "snd (scopeStoreEvents driver0 ''cart'' None world0)"
  let ?w2 = "snd (snd (addStore driver0 ''cart'' 20 ?w1))"
  note o = addStore_overwrite [OF driver0_facts(1) driver0_scoped(1) driver0_facts(2), of 20]
  have l2: "filter (\<lambda>l. fst l = ''record.create'') (listeners ?w2 10) =
       [(''record.create'', DriverRelay ''shop.'' ''cart'' ''.'' ''record.create'')]"
    using o(3) driver0_scoped(3) by simp
  have d: "emissions (snd (fire 10 ''record.create'' ?p ?w2)) =
      [[JStr ''shop.cart.record.create'', JObj [(''id'', JNum 1)]]]"
    using o(2,4) driver0_scoped(2)
    by (simp add: fire_single [OF l2] bus_call_def shop_cart_name)
  let ?v1 = "snd (scopeStoreEvents_c controller0 ''cart'' None world0)"
  let ?v2 = "snd (snd (addStore_c controller0 ''cart'' 20 ?v1))"
  note oc = addStore_c_overwrite
    [OF controller0_facts(1) controller0_scoped(1) controller0_facts(2), of 20]
  have l3: "filter (\<lambda>l. fst l = ''record.create'') (listeners ?v2 10)
      = [(''record.create'', ControllerRelay ''shop.'' ''record.create'')]"
    using oc(3) controller0_scoped(3) by simp
  have c: "emissions (snd (fire 10 ''record.create'' ?p ?v2)) =
      [[JStr ''shop.record.create'', JObj [(''id'', JNum 1)]]]"
    using oc(2,4) controller0_scoped(2) by (simp add: fire_single [OF l3] bus_call_def)
  show ?thesis
    using o(1) d oc(1) c by (simp add: new_Driver_cfg0 new_Controller_cfg0_c)
qed

section \<open>Namespacing (driver.js:584-784, controller.js:238-248)\<close>


lemma applyNamespace_other:
  "args = [] \<or> typeof (arg args 0) \<noteq> ''string'' \<Longrightarrow>
     applyNamespace d args w = (Some [JArgs args], w)"
  by (auto simp: applyNamespace_def Let_def)


lemma bus_apply_other:
  "BUS w \<Longrightarrow> args = [] \<or> typeof (arg args 0) \<noteq> ''string'' \<Longrightarrow>
     bus_apply p d args w = (Normal, call_ext (BusCall p [JArgs args]) w)"
  by (simp add: bus_apply_def applyNamespace_other bus_call_def)

lemma console_warn_facts [simp]:
  "BUS (console_warn m w) = BUS w" "bus_calls (console_warn m w) = bus_calls w"
  "calls (console_warn m w) = calls w"
  by (simp_all add: console_warn_def bus_calls_def)





text \<open>What \<^verbatim>\<open>applyNamespace\<close> hands on for a call with no arguments or with a first
  argument that is not a string: it returns its own \<^verbatim>\<open>arguments\<close> (driver.js:586 and 590),
  whose only element is the caller's arguments object, so with the bus available the bus
  primitive is called with that one object.\<close>

lemma non_string_call_wraps_arguments:
  "BUS w \<Longrightarrow> args = [] \<or> typeof (arg args 0) \<noteq> ''string'' \<Longrightarrow>
     emit d args w = (Normal, call_ext (BusCall Emit [JArgs args]) w) \<and>
     forward d args w = (Normal, call_ext (BusCall Forward [JArgs args]) w) \<and>
     delayEmit d args w = (Normal, call_ext (BusCall DelayEmit [JArgs args]) w) \<and>
     threshold d args w = (Normal, call_ext (BusCall Threshold [JArgs args]) w) \<and>
     attach d args w = (Normal, call_ext (BusCall Attach [JArgs args]) w)"
  by (simp add: emit_def forward_def delayEmit_def threshold_def attach_def bus_apply_other)

text \<open>\<^verbatim>\<open>on\<close> and \<^verbatim>\<open>once\<close> treat a first argument that is an object on their own
  (driver.js:613-616 and 636-638): \<^verbatim>\<open>once\<close> throws, \<^verbatim>\<open>on\<close> hands the call to \<^verbatim>\<open>pool\<close>.\<close>

lemma object_argument_not_forwarded:
  "once driver0 [JObj [], JFun 0] world0 =
     (Throw (Error ''Nested/pooled events (object) are only supported for the on() method.''),
      world0) \<and>
   on driver0 [JObj [], JFun 0] world0 = pool driver0 (JObj []) (JFun 0) world0"
  by (simp add: once_def on_def arg_def)

text \<open>C5. The claim: a call of \<^verbatim>\<open>on\<close>, \<^verbatim>\<open>once\<close>, \<^verbatim>\<open>emit\<close>, \<^verbatim>\<open>forward\<close>, \<^verbatim>\<open>delayEmit\<close>,
  \<^verbatim>\<open>threshold\<close> or \<^verbatim>\<open>attach\<close> whose first argument is not a string, or which has no
  arguments, reaches the corresponding bus primitive with the original argument list
  unmodified. The code at \<^verbatim>\<open>emit(42, 'x')\<close> and at \<^verbatim>\<open>emit()\<close>, with the bus available:
  \<^verbatim>\<open>NGN.BUS.emit\<close> is called with a single argument, the caller's arguments object, and
  not with \<^verbatim>\<open>42, 'x'\<close> or with no argument.\<close>

theorem non_string_arguments_are_wrapped:
  "BUS world0 \<and> typeof (arg [JNum 42, JStr ''x''] 0) \<noteq> ''string'' \<and>
   fst (emit driver0 [JNum 42, JStr ''x''] world0) = Normal \<and>
   bus_calls (snd (emit driver0 [JNum 42, JStr ''x''] world0)) =
     [(Emit, [JArgs [JNum 42, JStr ''x'']])] \<and>
   bus_calls (snd (emit driver0 [JNum 42, JStr ''x''] world0)) \<noteq>
     [(Emit, [JNum 42, JStr ''x''])] \<and>
   bus_calls (snd (emit driver0 [] world0)) = [(Emit, [JArgs []])] \<and>
   bus_calls (snd (emit driver0 [] world0)) \<noteq> [(Emit, [])]"
  by (simp add: emit_def bus_apply_def applyNamespace_def arg_def bus_call_def world0_def
      bus_calls_def call_ext_def List.map_filter_def)

section \<open>The bus is not available\<close>

lemma bus_apply_without_bus:
  "\<not> BUS w \<Longrightarrow> bus_apply p d args w = (Throw TypeError, w)"
  by (simp add: bus_apply_def)

lemma controller_on_without_bus:
  "\<not> BUS w \<Longrightarrow> on_c c topic handler w =
     (Normal, console_warn
        [JStr (''NGNX.Controller.on('' @ [CHR 0x27] @ topic @ [CHR 0x27]
               @ '', ...) will not work because NGN.BUS is not available.'')] w)"
  by (simp add: on_c_def)

text \<open>C7. The claim: registering a handler while the bus is unavailable logs a warning
  and is a no-op that does not throw. The Controller does that
  (\<open>controller_on_without_bus\<close>). The Driver's \<^verbatim>\<open>on\<close> and \<^verbatim>\<open>once\<close>, at
  \<^verbatim>\<open>on('click', fn)\<close> without a bus: a \<^verbatim>\<open>TypeError\<close>, and nothing is logged.\<close>

theorem driver_on_without_bus_throws:
  "on driver0 [JStr ''click'', JFun 0] (world0\<lparr>BUS := False\<rparr>) =
     (Throw TypeError, world0\<lparr>BUS := False\<rparr>) \<and>
   once driver0 [JStr ''click'', JFun 0] (world0\<lparr>BUS := False\<rparr>) =
     (Throw TypeError, world0\<lparr>BUS := False\<rparr>) \<and>
   console (world0\<lparr>BUS := False\<rparr>) = []"
  by (simp add: on_def once_def bus_apply_def arg_def world0_def)

section \<open>Rendering (driver.js:376-464)\<close>

lemma render_unregistered:
  "map_of (templates d) name = None \<Longrightarrow>
     render d name data parent position callback w =
       (Throw (Error (''The Driver does not have a reference to a template called ''
                       @ trim name @ ''.'')), w)"
  by (simp add: render_def)

lemma render_not_typeof_object:
  assumes "map_of (templates d) name = Some source"
    and "typeof (case data of JEntity representation \<Rightarrow> representation | _ \<Rightarrow> data) \<noteq> ''object''"
  shows "fst (render d name data parent position callback w) =
       Throw (Error (''The data provided to the renderer could not be processed ''
                     @ ''because it is not a key/value object.''))"
    and "calls (snd (render d name data parent position callback w)) = calls w"
  using assms by (simp_all add: render_def Let_def console_error_def)

text \<open>C6. The claim: \<^verbatim>\<open>render\<close> throws, before any external call, for a template name
  that is not registered and for data that is not a key/value object. The first half
  holds (\<open>render_unregistered\<close>), and so does the second for data whose \<^verbatim>\<open>typeof\<close> is not
  \<^verbatim>\<open>'object'\<close> (\<open>render_not_typeof_object\<close>). The code at \<^verbatim>\<open>null\<close>, whose \<^verbatim>\<open>typeof\<close> is
  \<^verbatim>\<open>'object'\<close>: no error, and the template is fetched with \<^verbatim>\<open>null\<close> as its data.\<close>

theorem render_null_data_not_rejected:
  "map_of (templates driver0) ''view'' = Some ''./view.html'' \<and>
   render driver0 ''view'' JNull (JFun 7) JUndefined JUndefined world0 =
     (Normal, call_ext (NetTemplate ''./view.html'' JNull (UserCallback 7)) world0)"
  by (simp add: render_def driver0_def)






lemma emissions_dom_update [simp]: "emissions (w\<lparr>dom := x\<rparr>) = emissions w"
  by (simp add: emissions_def bus_calls_def)


lemma call_ext_fields [simp]:
  "BUS (call_ext c w) = BUS w" "dom (call_ext c w) = dom w"
  "has_DOM (call_ext c w) = has_DOM w" "console (call_ext c w) = console w"
  "parse_html (call_ext c w) = parse_html w"
  by (simp_all add: call_ext_def)














section \<open>References (driver.js:299-314, controller.js:131-137)\<close>

lemma createReference_console:
  "console (snd (snd (createReference d name selector w))) = console w"
  by (simp add: createReference_def REF_create_def Let_def call_ext_def)

lemma createReference_again:
  "selector \<noteq> [] \<Longrightarrow> REF w (id_d d @ ''-'' @ name) = Some s \<Longrightarrow>
     createReference d name selector w = (Normal, d, w)"
  by (simp add: createReference_def Let_def)

lemma createReference_keeps:
  "REF w (id_d d @ ''-'' @ name) = Some s \<Longrightarrow>
     REF (snd (snd (createReference d name selector w))) (id_d d @ ''-'' @ name) = Some s"
  by (simp add: createReference_def Let_def)

lemma world_nav_facts:
  "REF world_nav ''shop-nav'' = Some ''#one''" "console world_nav = []"
  "id_d driver_nav = ''shop''"
  by (simp_all add: world_nav_def driver_nav_def createReference_def REF_create_def Let_def
      driver0_def world0_def call_ext_def)

text \<open>C8. The claim: registering a reference name a second time leaves the selector of
  the first registration in place and logs a warning. The selector stays
  (\<open>createReference_keeps\<close>), but nothing is logged (\<open>createReference_console\<close>). The code
  after \<^verbatim>\<open>addReference('nav', '#one')\<close>, at \<^verbatim>\<open>addReference('nav', '#two')\<close>, and the
  Controller constructed with a reference \<^verbatim>\<open>nav\<close> that \<^verbatim>\<open>NGN.ref\<close> already has: the
  registry keeps \<^verbatim>\<open>#one\<close> and the console stays empty.\<close>

theorem duplicate_reference_logs_nothing:
  "REF world_nav ''shop-nav'' = Some ''#one'' \<and> console world_nav = [] \<and>
   createReference driver_nav ''nav'' ''#two'' world_nav = (Normal, driver_nav, world_nav) \<and>
   NGN_ref (snd (snd (new_Controller
       \<lparr>scope_cfg = None, references_cfg = Some [(''nav'', ''#two'')], stores_cfg = None\<rparr>
       (world0\<lparr>NGN_ref := [''nav'' \<mapsto> ''#one'']\<rparr>)))) ''nav'' = Some ''#one'' \<and>
   console (snd (snd (new_Controller
       \<lparr>scope_cfg = None, references_cfg = Some [(''nav'', ''#two'')], stores_cfg = None\<rparr>
       (world0\<lparr>NGN_ref := [''nav'' \<mapsto> ''#one'']\<rparr>)))) = []"
proof -
  have "createReference driver_nav ''nav'' ''#two'' world_nav = (Normal, driver_nav, world_nav)"
    by (rule createReference_again) (simp_all add: world_nav_facts)
  then show ?thesis
    by (simp add: world_nav_facts new_Controller_def Let_def world0_def)
qed

end
